theory Spec2Isabelle
  imports Complex_Main
begin

section \<open>ECF-TST: model training script and annual mapping script\<close>

text \<open>
  Both scripts are Google Earth Engine (GEE) JavaScript programs. The JavaScript runs
  on the client and only builds a request; the \<open>ee.*\<close> operations are evaluated later
  on the server. Numbers of the server (\<open>ee.Number\<close>, pixel values) are modelled as
  \<open>real\<close>; a server object whose evaluation fails, and a JavaScript exception raised
  while the request is built, are both values \<open>Inl e\<close> of the sum type
  \<open>error + 'a\<close>.
\<close>

datatype error =
    ReferenceError string
  | DictionaryKeyNotFound int
  | ListIndexOutOfBounds nat
  | ArrayProjectDroppedAxisTooLong nat nat
  | ArrayFlattenLengthMismatch nat nat

fun and_then :: "error + 'a \<Rightarrow> ('a \<Rightarrow> error + 'b) \<Rightarrow> error + 'b" where
  "and_then (Inl e) f = Inl e"
| "and_then (Inr x) f = f x"

fun collect :: "(error + 'a) list \<Rightarrow> error + 'a list" where
  "collect [] = Inr []"
| "collect (r # rs) = and_then r (\<lambda>x. and_then (collect rs) (\<lambda>xs. Inr (x # xs)))"

section \<open>Earth Engine objects used by both scripts\<close>

text \<open>
  An image is a list of named bands; a band gives every pixel a value or no value
  (\<open>None\<close>: the pixel is masked). Pixels are addressed on an unbounded integer grid.
\<close>

type_synonym pixel = "int \<times> int"
type_synonym band = "pixel \<Rightarrow> real option"
type_synonym image = "(string \<times> band) list"

text \<open>
  \<open>ee.Algorithms.If(condition, trueCase, falseCase)\<close> reads its condition as one
  boolean for the whole object: a number is false when it is 0, and an object that is
  neither a number, a string, a list, a dictionary nor null (an \<open>ee.Image\<close>, say) is
  true. It does not choose pixel by pixel.
\<close>

datatype condition = Number real | Image image

fun truthy :: "condition \<Rightarrow> bool" where
  "truthy (Number x) = (x \<noteq> 0)"
| "truthy (Image img) = True"

definition Algorithms_If :: "condition \<Rightarrow> 'a \<Rightarrow> 'a \<Rightarrow> 'a" where
  "Algorithms_If c trueCase falseCase = (if truthy c then trueCase else falseCase)"

definition gt :: "int \<Rightarrow> int \<Rightarrow> real" where
  "gt a b = (if a > b then 1 else 0)"

section \<open>Training script: hyperparameter grid\<close>

record rf_params =
  trees :: nat
  leafPop :: nat
  bagFrac :: real
  splitVar :: real

record combination =
  targetSizes :: "real list"
  rfParams :: rf_params

definition targetSizesGrid :: "real list list" where
  "targetSizesGrid =
    [[400, 400, 600],
     [400, 400, 800],
     [400, 500, 700],
     [500, 400, 700],
     [500, 500, 600],
     [500, 500, 700],
     [500, 500, 800],
     [600, 400, 700],
     [600, 500, 800]]"

definition rfParamsGrid :: "rf_params list" where
  "rfParamsGrid =
    [\<lparr>trees = 50, leafPop = 1, bagFrac = 5/10, splitVar = 5/10\<rparr>,
     \<lparr>trees = 50, leafPop = 1, bagFrac = 7/10, splitVar = 7/10\<rparr>,
     \<lparr>trees = 50, leafPop = 2, bagFrac = 6/10, splitVar = 6/10\<rparr>,
     \<lparr>trees = 100, leafPop = 1, bagFrac = 5/10, splitVar = 7/10\<rparr>,
     \<lparr>trees = 100, leafPop = 2, bagFrac = 6/10, splitVar = 6/10\<rparr>,
     \<lparr>trees = 100, leafPop = 5, bagFrac = 7/10, splitVar = 5/10\<rparr>,
     \<lparr>trees = 150, leafPop = 2, bagFrac = 7/10, splitVar = 5/10\<rparr>,
     \<lparr>trees = 150, leafPop = 5, bagFrac = 5/10, splitVar = 7/10\<rparr>,
     \<lparr>trees = 200, leafPop = 5, bagFrac = 6/10, splitVar = 6/10\<rparr>]"

text \<open>
  \<open>targetSizesGrid.map(function(targetSizes) { return rfParamsGrid.map(...) }).flatten()\<close>:
  the outer map yields a list of lists of dictionaries, which \<open>flatten\<close> concatenates.
\<close>

definition allCombinations :: "combination list" where
  "allCombinations =
    concat (map (\<lambda>ts. map (\<lambda>rf. \<lparr>targetSizes = ts, rfParams = rf\<rparr>) rfParamsGrid)
                targetSizesGrid)"

section \<open>Training script: helper functions\<close>

text \<open>
  A sample point after \<open>convertToFloat\<close>: its integer \<open>label\<close> and its feature values.
  A feature collection is a list of samples; \<open>merge\<close> appends the second collection to
  the first.
\<close>

record 'f sample =
  label :: int
  feats :: 'f

text \<open>
  \<open>randomColumn(name, seed)\<close> gives every element a pseudo-random number in \<open>[0, 1)\<close>;
  the generator is a parameter \<open>rnd seed position\<close>. The default seed is 0.
  \<open>limit(max, property, true)\<close> sorts by the property, ascending, and keeps at most
  \<open>max\<close> elements: a collection never yields more elements than it holds.
\<close>

definition randomColumn :: "(int \<Rightarrow> nat \<Rightarrow> real) \<Rightarrow> int \<Rightarrow> 'a list \<Rightarrow> ('a \<times> real) list" where
  "randomColumn rnd seed xs = zip xs (map (rnd seed) [0..<length xs])"

definition limit :: "nat \<Rightarrow> ('a \<times> real) list \<Rightarrow> 'a list" where
  "limit n xs = map fst (take n (sort_key snd xs))"

definition oversampleClass ::
  "(int \<Rightarrow> nat \<Rightarrow> real) \<Rightarrow> 'f sample list \<Rightarrow> int \<Rightarrow> real \<Rightarrow> 'f sample list" where
  "oversampleClass rnd features targetClass multiplier =
    (let classSamples = filter (\<lambda>s. label s = targetClass) features;
         size_c = int (length classSamples);
         targetSize = round (max (multiplier * real_of_int size_c) 0);
         overSize = targetSize - size_c;
         overSampled =
           Algorithms_If (Number (gt overSize 0))
             (limit (nat overSize) (randomColumn rnd 0 classSamples))
             []
     in classSamples @ overSampled)"

section \<open>Training script: evaluation of one combination\<close>

text \<open>
  \<open>ee.List.get\<close> and \<open>ee.List.getNumber\<close> fail on an index outside the list;
  \<open>ee.Dictionary.getNumber\<close> fails on a key the dictionary does not hold.
\<close>

definition list_get :: "'a list \<Rightarrow> nat \<Rightarrow> error + 'a" where
  "list_get xs k = (if k < length xs then Inr (xs ! k) else Inl (ListIndexOutOfBounds k))"

definition dict_getNumber :: "(int \<rightharpoonup> nat) \<Rightarrow> int \<Rightarrow> error + real" where
  "dict_getNumber d k =
    (case d k of None \<Rightarrow> Inl (DictionaryKeyNotFound k) | Some n \<Rightarrow> Inr (real n))"

text \<open>
  \<open>reduceColumns(ee.Reducer.frequencyHistogram(), ['label'])\<close>: the dictionary of the
  label values that occur, each with its number of occurrences.
\<close>

definition classSizes :: "'f sample list \<Rightarrow> (int \<rightharpoonup> nat)" where
  "classSizes trainingOriginal c =
    (let n = length (filter (\<lambda>s. label s = c) trainingOriginal)
     in if n = 0 then None else Some n)"

text \<open>Lines 280 to 284: the stable class as it is, then the three oversampled classes.\<close>

definition balancedTrainingSet ::
  "'f sample list \<Rightarrow> 'f sample list \<Rightarrow> 'f sample list \<Rightarrow> 'f sample list \<Rightarrow> 'f sample list" where
  "balancedTrainingSet trainingOriginal oversampledClass1 oversampledClass2 oversampledClass3 =
    filter (\<lambda>s. label s = 0) trainingOriginal
      @ oversampledClass1 @ oversampledClass2 @ oversampledClass3"

text \<open>
  \<open>errorMatrix('label', 'classification')\<close> without an \<open>order\<close> argument: the values
  are taken to span \<open>0 .. maxValue\<close>, so the matrix has \<open>maxValue + 1\<close> rows (actual)
  and columns (predicted). \<open>producersAccuracy()\<close> is the column vector of
  correct / total per row, and \<open>toList()\<close> turns it into a list of one-element lists.
  A row with total 0 is divided as HOL divides (the quotient is 0); no theorem below
  depends on that case.
\<close>

definition errorMatrix :: "(int \<times> int) list \<Rightarrow> nat list list" where
  "errorMatrix pairs =
    (let n = nat (fold max (map fst pairs @ map snd pairs) (- 1) + 1)
     in map (\<lambda>i. map (\<lambda>j. length (filter (\<lambda>p. p = (int i, int j)) pairs)) [0..<n]) [0..<n])"

definition producersAccuracy :: "nat list list \<Rightarrow> real list list" where
  "producersAccuracy m =
    map (\<lambda>i. [real (m ! i ! i) / real (sum_list (m ! i))]) [0..<length m]"

definition cm_accuracy :: "nat list list \<Rightarrow> real" where
  "cm_accuracy m =
    real (sum_list (map (\<lambda>i. m ! i ! i) [0..<length m])) / real (sum_list (map sum_list m))"

definition cm_kappa :: "nat list list \<Rightarrow> real" where
  "cm_kappa m =
    (let total = real (sum_list (map sum_list m));
         po = cm_accuracy m;
         pe = sum_list (map (\<lambda>i. real (sum_list (m ! i)) * real (sum_list (map (\<lambda>r. r ! i) m)))
                            [0..<length m]) / (total * total)
     in (po - pe) / (1 - pe))"

record evaluation_record =
  eco_zone :: nat
  iteration :: nat
  class1_target :: real
  class2_target :: real
  class3_target :: real
  num_trees :: nat
  min_leaf_pop :: nat
  bag_frac :: real
  split_vars :: int
  overall_accuracy :: real
  kappa :: real
  recall_0 :: "real list"
  recall_1 :: "real list"
  recall_2 :: "real list"
  recall_3 :: "real list"

text \<open>
  Lines 304 to 328, from the classified test set (the pairs of \<open>label\<close> and
  \<open>classification\<close>) to the feature that holds the metrics. The four recalls are read
  at the fixed positions 0 to 3 of the producer's accuracy list.
\<close>

definition compileStats ::
  "nat \<Rightarrow> nat \<Rightarrow> real \<Rightarrow> real \<Rightarrow> real \<Rightarrow> rf_params \<Rightarrow> int \<Rightarrow> (int \<times> int) list
    \<Rightarrow> error + evaluation_record" where
  "compileStats ECO_ZONE_ID it class1Target class2Target class3Target rfp splitVars
      testClassification =
    (let confusionMatrix = errorMatrix testClassification;
         pa = producersAccuracy confusionMatrix
     in and_then (list_get pa 0) (\<lambda>r0.
        and_then (list_get pa 1) (\<lambda>r1.
        and_then (list_get pa 2) (\<lambda>r2.
        and_then (list_get pa 3) (\<lambda>r3.
          Inr \<lparr>eco_zone = ECO_ZONE_ID, iteration = it,
               class1_target = class1Target, class2_target = class2Target,
               class3_target = class3Target,
               num_trees = trees rfp, min_leaf_pop = leafPop rfp, bag_frac = bagFrac rfp,
               split_vars = splitVars,
               overall_accuracy = cm_accuracy confusionMatrix,
               kappa = cm_kappa confusionMatrix,
               recall_0 = r0, recall_1 = r1, recall_2 = r2, recall_3 = r3\<rparr>)))))"

text \<open>
  Line 278 calls \<open>oversampledClass\<close>, a name that no script declares (the helper of
  line 221 is \<open>oversampleClass\<close>). Evaluating the call raises a JavaScript
  ReferenceError.
\<close>

definition call_undeclared :: "string \<Rightarrow> error + 'a" where
  "call_undeclared name = Inl (ReferenceError name)"

text \<open>
  \<open>evaluateParams\<close>, lines 245 to 329. \<open>completeSamples\<close> is the collection of line 251
  (filtered and converted samples), \<open>numFeatures\<close> the size of the optimal feature list,
  \<open>smileRandomForest\<close> the trained classifier as a function of its configuration and
  its training set. The body runs once on the client, where it only builds the request:
  the ReferenceError of line 278 is raised there, before the server evaluates anything,
  so it comes first in the model; the server-side failures (a missing histogram key, an
  index outside a list) follow in the order of the source.
\<close>

definition evaluateParams ::
  "(int \<Rightarrow> nat \<Rightarrow> real) \<Rightarrow> (rf_params \<Rightarrow> int \<Rightarrow> 'f sample list \<Rightarrow> 'f \<Rightarrow> int) \<Rightarrow> nat \<Rightarrow> nat
    \<Rightarrow> 'f sample list \<Rightarrow> combination \<Rightarrow> nat \<Rightarrow> error + evaluation_record" where
  "evaluateParams rnd smileRandomForest ECO_ZONE_ID numFeatures completeSamples comb it =
    (let split = 3 / 4;
         withRandom = randomColumn rnd (int it + 100) completeSamples;
         trainingOriginal = map fst (filter (\<lambda>s. snd s < split) withRandom);
         testingSet = map fst (filter (\<lambda>s. snd s \<ge> split) withRandom);
         classSizesDict = classSizes trainingOriginal
     in and_then (call_undeclared ''oversampledClass'') (\<lambda>oversampledClass3.
        and_then (list_get (targetSizes comb) 0) (\<lambda>class1Target.
        and_then (list_get (targetSizes comb) 1) (\<lambda>class2Target.
        and_then (list_get (targetSizes comb) 2) (\<lambda>class3Target.
        and_then (dict_getNumber classSizesDict 1) (\<lambda>size1.
        and_then (dict_getNumber classSizesDict 2) (\<lambda>size2.
        and_then (dict_getNumber classSizesDict 3) (\<lambda>size3.
          let class1Multiplier = class1Target / size1;
              class2Multiplier = class2Target / size2;
              class3Multiplier = class3Target / size3;
              oversampledClass1 = oversampleClass rnd trainingOriginal 1 class1Multiplier;
              oversampledClass2 = oversampleClass rnd trainingOriginal 2 class2Multiplier;
              balanced = balancedTrainingSet trainingOriginal
                           oversampledClass1 oversampledClass2 oversampledClass3;
              splitVars = \<lfloor>sqrt (real numFeatures * splitVar (rfParams comb))\<rfloor>;
              trainedClassifier = smileRandomForest (rfParams comb) splitVars balanced;
              testClassification =
                map (\<lambda>s. (label s, trainedClassifier (feats s))) testingSet
          in compileStats ECO_ZONE_ID it class1Target class2Target class3Target
               (rfParams comb) splitVars testClassification))))))))"

text \<open>
  Section 6: \<open>ee.List.sequence(0, allCombinations.size() - 1)\<close> mapped through
  \<open>evaluateParams\<close>; the collection exists only if every element does.
\<close>

definition results ::
  "(int \<Rightarrow> nat \<Rightarrow> real) \<Rightarrow> (rf_params \<Rightarrow> int \<Rightarrow> 'f sample list \<Rightarrow> 'f \<Rightarrow> int) \<Rightarrow> nat \<Rightarrow> nat
    \<Rightarrow> 'f sample list \<Rightarrow> error + evaluation_record list" where
  "results rnd smileRandomForest ECO_ZONE_ID numFeatures completeSamples =
    collect (map (\<lambda>it. and_then (list_get allCombinations it) (\<lambda>comb.
                evaluateParams rnd smileRandomForest ECO_ZONE_ID numFeatures
                  completeSamples comb it))
             [0..<length allCombinations])"

section \<open>Mapping script: image operations\<close>

text \<open>
  \<open>select\<close> picks bands by name, in the order asked (selecting a band the image does
  not hold is an error of the server; every selection below names a band that exists,
  and the model gives a fully masked band otherwise). \<open>rename\<close> renames by position,
  \<open>addBands\<close> appends.
\<close>

definition select_band :: "image \<Rightarrow> string \<Rightarrow> band" where
  "select_band img name = (case map_of img name of Some b \<Rightarrow> b | None \<Rightarrow> (\<lambda>p. None))"

definition select :: "string list \<Rightarrow> image \<Rightarrow> image" where
  "select names img = map (\<lambda>n. (n, select_band img n)) names"

definition rename :: "string list \<Rightarrow> image \<Rightarrow> image" where
  "rename names img = zip names (map snd img)"

definition addBands :: "image \<Rightarrow> image \<Rightarrow> image" where
  "addBands img extra = img @ extra"

definition sample_at :: "image \<Rightarrow> string \<Rightarrow> pixel \<Rightarrow> real option" where
  "sample_at img name p = select_band img name p"

text \<open>
  A binary operation is masked where either input is. When one image has a single band
  it is used against every band of the other; images with the same number of bands are
  paired by position and keep the names of the first. \<open>ee.Image.divide\<close> returns 0 for
  a division by 0, as the division of HOL does.
\<close>

fun pixel_op2 :: "(real \<Rightarrow> real \<Rightarrow> real) \<Rightarrow> real option \<Rightarrow> real option \<Rightarrow> real option" where
  "pixel_op2 f (Some a) (Some b) = Some (f a b)"
| "pixel_op2 f _ _ = None"

definition band_op2 :: "(real \<Rightarrow> real \<Rightarrow> real) \<Rightarrow> band \<Rightarrow> band \<Rightarrow> band" where
  "band_op2 f x y = (\<lambda>p. pixel_op2 f (x p) (y p))"

definition image_op2 :: "(real \<Rightarrow> real \<Rightarrow> real) \<Rightarrow> image \<Rightarrow> image \<Rightarrow> image" where
  "image_op2 f a b =
    (case b of
       [(_, y)] \<Rightarrow> map (\<lambda>(n, x). (n, band_op2 f x y)) a
     | _ \<Rightarrow>
       (case a of
          [(_, x)] \<Rightarrow> map (\<lambda>(n, y). (n, band_op2 f x y)) b
        | _ \<Rightarrow> map (\<lambda>((n, x), (_, y)). (n, band_op2 f x y)) (zip a b)))"

definition Image_constant :: "real \<Rightarrow> image" where
  "Image_constant c = [(''constant'', \<lambda>p. Some c)]"

definition subtract_img :: "image \<Rightarrow> image \<Rightarrow> image" where
  "subtract_img = image_op2 (\<lambda>a b. a - b)"

definition add_img :: "image \<Rightarrow> image \<Rightarrow> image" where
  "add_img = image_op2 (\<lambda>a b. a + b)"

definition multiply_img :: "image \<Rightarrow> image \<Rightarrow> image" where
  "multiply_img = image_op2 (\<lambda>a b. a * b)"

definition divide_img :: "image \<Rightarrow> image \<Rightarrow> image" where
  "divide_img = image_op2 (\<lambda>a b. a / b)"

definition eq_img :: "image \<Rightarrow> image \<Rightarrow> image" where
  "eq_img = image_op2 (\<lambda>a b. if a = b then 1 else 0)"

definition abs_img :: "image \<Rightarrow> image" where
  "abs_img img = map (\<lambda>(n, x). (n, \<lambda>p. map_option abs (x p))) img"

text \<open>
  \<open>normalizedDifference([b1, b2])\<close>: one band \<open>nd\<close> holding (first - second) /
  (first + second); a negative value in either input band masks the output pixel. (The
  quotient for a zero sum is the one of HOL; no theorem below depends on it.)
\<close>

definition normalizedDifference :: "string \<Rightarrow> string \<Rightarrow> image \<Rightarrow> image" where
  "normalizedDifference b1 b2 img =
    [(''nd'', \<lambda>p.
        (case (select_band img b1 p, select_band img b2 p) of
           (Some a, Some b) \<Rightarrow> if a < 0 \<or> b < 0 then None else Some ((a - b) / (a + b))
         | _ \<Rightarrow> None))]"

section \<open>Mapping script: spectral indices\<close>

definition INDEX_BANDS :: "string list" where
  "INDEX_BANDS = [''NBR'', ''NDVI'', ''NDMI'', ''NDBI'', ''RVI'', ''SAVI'', ''EVI'', ''DVI'']"

definition CHG_RA_NAMES :: "string list" where
  "CHG_RA_NAMES = map (\<lambda>b. b @ ''_chg_ra'') INDEX_BANDS"

definition RECO_S_NAMES :: "string list" where
  "RECO_S_NAMES = map (\<lambda>b. b @ ''_reco_s'') INDEX_BANDS"

definition addIndices :: "image \<Rightarrow> image" where
  "addIndices img =
    (let nbr = rename [''NBR''] (multiply_img (normalizedDifference ''B4'' ''B7'' img) (Image_constant 1000));
         ndvi = rename [''NDVI''] (multiply_img (normalizedDifference ''B4'' ''B3'' img) (Image_constant 1000));
         ndmi = rename [''NDMI''] (multiply_img (normalizedDifference ''B4'' ''B5'' img) (Image_constant 1000));
         ndbi = rename [''NDBI''] (multiply_img (normalizedDifference ''B5'' ''B4'' img) (Image_constant 1000));
         rvi = rename [''RVI'']
                 (multiply_img (divide_img (select [''B4''] img) (select [''B3''] img)) (Image_constant 1000));
         dvi = rename [''DVI''] (subtract_img (select [''B4''] img) (select [''B3''] img));
         NIR = select [''B4''] img;
         RED = select [''B3''] img;
         BLUE = select [''B1''] img;
         L = Image_constant (5 / 10);
         savi = rename [''SAVI'']
                  (multiply_img
                    (divide_img (multiply_img (add_img (Image_constant 1) L) (subtract_img NIR RED))
                                (add_img (add_img NIR RED) L))
                    (Image_constant 1000));
         evi = rename [''EVI'']
                 (multiply_img
                   (multiply_img (Image_constant (25 / 10))
                     (divide_img (subtract_img NIR RED)
                       (add_img
                         (subtract_img (add_img NIR (multiply_img (Image_constant 6) RED))
                                       (multiply_img (Image_constant (75 / 10)) BLUE))
                         (Image_constant 1))))
                   (Image_constant 1000))
     in addBands (addBands (addBands (addBands (addBands (addBands (addBands (addBands img
          nbr) ndvi) ndmi) ndbi) rvi) savi) evi) dvi)"

section \<open>Mapping script: neighbourhood operations\<close>

text \<open>
  \<open>ee.Kernel.square(radius, 'pixels')\<close> is the square of side \<open>2 * radius + 1\<close> with
  equal weights. \<open>reduceNeighborhood(reducer, kernel)\<close> reduces the unmasked values
  under the kernel centred on the pixel, and leaves a masked pixel masked.
\<close>

definition Kernel_square :: "int \<Rightarrow> pixel list" where
  "Kernel_square radius =
    concat (map (\<lambda>dx. map (\<lambda>dy. (dx, dy)) [- radius..radius]) [- radius..radius])"

definition neighbourhood :: "pixel list \<Rightarrow> band \<Rightarrow> pixel \<Rightarrow> real list" where
  "neighbourhood kern b p =
    concat (map (\<lambda>d. case b (fst p + fst d, snd p + snd d) of None \<Rightarrow> [] | Some v \<Rightarrow> [v])
                kern)"

definition Reducer_mean :: "real list \<Rightarrow> real option" where
  "Reducer_mean vs = (if vs = [] then None else Some (sum_list vs / real (length vs)))"

definition Reducer_stdDev :: "real list \<Rightarrow> real option" where
  "Reducer_stdDev vs =
    (if vs = [] then None
     else let m = sum_list vs / real (length vs)
          in Some (sqrt (sum_list (map (\<lambda>v. (v - m) * (v - m)) vs) / real (length vs))))"

definition reduceNeighborhood :: "(real list \<Rightarrow> real option) \<Rightarrow> pixel list \<Rightarrow> image \<Rightarrow> image" where
  "reduceNeighborhood reducer kern img =
    map (\<lambda>(n, b). (n, \<lambda>p. case b p of None \<Rightarrow> None
                                    | Some _ \<Rightarrow> reducer (neighbourhood kern b p))) img"

definition addFirstOrderTexture :: "image \<Rightarrow> image" where
  "addFirstOrderTexture image_in =
    (let meanReducer = Reducer_mean;
         stdReducer = Reducer_stdDev;
         kernel = Kernel_square 3;
         B1mean = rename [''B1_mean''] (reduceNeighborhood meanReducer kernel (select [''B1''] image_in));
         B1std = rename [''B1_stdDev''] (reduceNeighborhood stdReducer kernel (select [''B1''] image_in));
         B2mean = rename [''B2_mean''] (reduceNeighborhood meanReducer kernel (select [''B2''] image_in));
         B2std = rename [''B2_stdDev''] (reduceNeighborhood stdReducer kernel (select [''B2''] image_in));
         B3mean = rename [''B3_mean''] (reduceNeighborhood meanReducer kernel (select [''B3''] image_in));
         B3std = rename [''B3_stdDev''] (reduceNeighborhood stdReducer kernel (select [''B3''] image_in));
         B4mean = rename [''B4_mean''] (reduceNeighborhood meanReducer kernel (select [''B4''] image_in));
         B4std = rename [''B4_stdDev''] (reduceNeighborhood stdReducer kernel (select [''B4''] image_in));
         B5mean = rename [''B5_mean''] (reduceNeighborhood meanReducer kernel (select [''B5''] image_in));
         B5std = rename [''B5_stdDev''] (reduceNeighborhood stdReducer kernel (select [''B5''] image_in));
         B7mean = rename [''B7_mean''] (reduceNeighborhood meanReducer kernel (select [''B7''] image_in));
         B7std = rename [''B7_stdDev''] (reduceNeighborhood stdReducer kernel (select [''B7''] image_in))
     in addBands (addBands (addBands (addBands (addBands (addBands (addBands (addBands
         (addBands (addBands (addBands (addBands image_in
           B1mean) B1std) B2mean) B2std) B3mean) B3std) B4mean) B4std) B5mean) B5std)
           B7mean) B7std)"




section \<open>Mapping script: temporal features\<close>

text \<open>
  An image collection is the list of its images, each with its \<open>composite_year\<close>.
  The definitions below are the local values of \<open>calculateAnnualFeatures\<close> that the
  relative change and the two trends are made of.
\<close>

type_synonym collection = "(int \<times> image) list"

definition addYearBand :: "int \<times> image \<Rightarrow> int \<times> image" where
  "addYearBand img =
    (let year = fst img;
         yearImg = rename [''year''] (Image_constant (real_of_int year))
     in (fst img, addBands (snd img) yearImg))"

definition histCollection_3y :: "collection \<Rightarrow> int \<Rightarrow> collection" where
  "histCollection_3y tsCollection targetYear =
    map addYearBand
      (sort_key fst (filter (\<lambda>img. fst img \<ge> targetYear - 3 \<and> fst img \<le> targetYear - 1)
                            tsCollection))"

definition histCollection :: "collection \<Rightarrow> int \<Rightarrow> collection" where
  "histCollection tsCollection targetYear =
    map addYearBand (sort_key fst (filter (\<lambda>img. fst img < targetYear) tsCollection))"

definition safeDivide :: "image \<Rightarrow> image \<Rightarrow> image" where
  "safeDivide num denom =
    Algorithms_If (Image (eq_img denom (Image_constant 0))) (Image_constant 0) (divide_img num denom)"

definition chg_ra_target :: "image \<Rightarrow> image \<Rightarrow> image" where
  "chg_ra_target imgTarget imgPrev1 =
    rename CHG_RA_NAMES
      (select INDEX_BANDS
        (divide_img (subtract_img imgTarget imgPrev1)
           (safeDivide (abs_img imgPrev1) (add_img (abs_img imgPrev1) (Image_constant (1 / 100000))))))"

text \<open>
  \<open>ee.Reducer.linearRegression({numX: 1, numY: n})\<close> over a collection: at each pixel
  the inputs are the tuples (x, y1, ..., yn) of the images unmasked there, and the
  output \<open>coefficients\<close> is the \<open>numX\<close> by \<open>numY\<close> array of the least-squares
  coefficients. The reducer adds no constant term: with the year as the only
  independent variable the fitted model is \<open>y = c * year\<close>, whose coefficient is
  \<open>sum (x * y) / sum (x * x)\<close>. Without input the pixel is masked.
\<close>

definition tuples_at :: "string list \<Rightarrow> collection \<Rightarrow> pixel \<Rightarrow> real list list" where
  "tuples_at names coll p =
    concat (map (\<lambda>img. case those (map (\<lambda>n. select_band (snd img) n p) names) of
                         None \<Rightarrow> [] | Some vs \<Rightarrow> [vs]) coll)"

definition linearRegression_numX1 :: "nat \<Rightarrow> real list list \<Rightarrow> real list list option" where
  "linearRegression_numX1 numY tuples =
    (let sxx = sum_list (map (\<lambda>t. t ! 0 * t ! 0) tuples)
     in if sxx = 0 then None
        else Some [map (\<lambda>j. sum_list (map (\<lambda>t. t ! 0 * t ! (j + 1)) tuples) / sxx) [0..<numY]])"

text \<open>
  \<open>arrayProject([0])\<close> keeps axis 0 of the array of each pixel; a dropped axis must have
  length at most 1. \<open>arrayFlatten([names])\<close> turns a one-dimensional array into one band
  per name and needs as many elements as names.
\<close>

definition arrayProject_axis0 :: "real list list \<Rightarrow> error + real list" where
  "arrayProject_axis0 arr =
    (case filter (\<lambda>row. length row > 1) arr of
       [] \<Rightarrow> Inr (concat arr)
     | row # _ \<Rightarrow> Inl (ArrayProjectDroppedAxisTooLong 1 (length row)))"

definition arrayFlatten1 :: "string list \<Rightarrow> real list \<Rightarrow> error + (string \<times> real) list" where
  "arrayFlatten1 names v =
    (if length v = length names then Inr (zip names v)
     else Inl (ArrayFlattenLengthMismatch (length names) (length v)))"

text \<open>\<open>calculateTrend(collection, suffix)\<close>, evaluated at one pixel.\<close>

definition calculateTrend ::
  "collection \<Rightarrow> string \<Rightarrow> pixel \<Rightarrow> error + (string \<times> real option) list" where
  "calculateTrend coll suffix p =
    (let regression =
           linearRegression_numX1 (length INDEX_BANDS) (tuples_at (''year'' # INDEX_BANDS) coll p);
         names = map (\<lambda>b. b @ ''_'' @ suffix) INDEX_BANDS
     in case regression of
          None \<Rightarrow> Inr (map (\<lambda>n. (n, None)) names)
        | Some coefficients \<Rightarrow>
            and_then (arrayProject_axis0 coefficients) (\<lambda>v.
            and_then (arrayFlatten1 INDEX_BANDS v) (\<lambda>flat.
              Inr (zip names (map (\<lambda>nv. Some (snd nv)) flat)))))"

definition fullTrend :: "collection \<Rightarrow> int \<Rightarrow> pixel \<Rightarrow> error + (string \<times> real option) list" where
  "fullTrend tsCollection targetYear p =
    calculateTrend (histCollection tsCollection targetYear) ''trend'' p"

definition recoveryTrend :: "collection \<Rightarrow> int \<Rightarrow> pixel \<Rightarrow> error + (string \<times> real option) list" where
  "recoveryTrend tsCollection targetYear p =
    and_then (calculateTrend (histCollection_3y tsCollection targetYear) ''reco_s'' p)
      (\<lambda>bands. Inr (zip RECO_S_NAMES (map snd bands)))"

section \<open>Properties of the training script\<close>

subsection \<open>The grid and the failure of every evaluation\<close>

lemma length_allCombinations: "length allCombinations = 81"
  by (simp add: allCombinations_def targetSizesGrid_def rfParamsGrid_def)

lemma allCombinations_product:
  "allCombinations =
    map (\<lambda>(ts, rf). \<lparr>targetSizes = ts, rfParams = rf\<rparr>) (List.product targetSizesGrid rfParamsGrid)"
  by (simp add: allCombinations_def product_concat_map map_concat comp_def)

lemma distinct_targetSizesGrid: "distinct targetSizesGrid"
  by (simp add: targetSizesGrid_def)

lemma distinct_rfParamsGrid: "distinct rfParamsGrid"
  by (simp add: rfParamsGrid_def)

lemma distinct_allCombinations: "distinct allCombinations"
  unfolding allCombinations_product
  by (rule iffD2[OF distinct_map])
     (auto simp: distinct_product distinct_targetSizesGrid distinct_rfParamsGrid inj_on_def)

lemma evaluateParams_ReferenceError:
  "evaluateParams rnd rf zone nf samples comb it = Inl (ReferenceError ''oversampledClass'')"
  by (simp add: evaluateParams_def call_undeclared_def Let_def)

lemma results_ReferenceError:
  "results rnd rf zone nf samples = Inl (ReferenceError ''oversampledClass'')"
proof -
  have "[0..<length allCombinations] = 0 # [1..<81]"
    by (simp add: length_allCombinations upt_conv_Cons)
  moreover have "list_get allCombinations 0 = Inr (allCombinations ! 0)"
    by (simp add: list_get_def length_allCombinations)
  ultimately show ?thesis
    by (simp add: results_def evaluateParams_ReferenceError)
qed

subsection \<open>What the oversampling helper does on its own\<close>

lemma length_limit: "length (limit n xs) = min n (length xs)"
  by (simp add: limit_def)

lemma set_limit_randomColumn: "set (limit n (randomColumn rnd seed xs)) \<subseteq> set xs"
proof
  fix x assume "x \<in> set (limit n (randomColumn rnd seed xs))"
  then obtain r where "(x, r) \<in> set (take n (sort_key snd (randomColumn rnd seed xs)))"
    by (auto simp: limit_def)
  then have "(x, r) \<in> set (randomColumn rnd seed xs)"
    by (auto dest: in_set_takeD)
  then show "x \<in> set xs"
    by (auto simp: randomColumn_def dest: set_zip_leftD)
qed

text \<open>
  The class grows by at most its own size: the duplicates are the first \<open>overSize\<close>
  elements of the class itself in random order, each sample at most once.
\<close>

lemma length_oversampleClass:
  "length (oversampleClass rnd features c m) =
    (let s = length (filter (\<lambda>x. label x = c) features);
         over = round (max (m * real s) 0) - int s
     in s + min (nat over) s)"
  by (auto simp add: oversampleClass_def Let_def length_limit randomColumn_def
        Algorithms_If_def gt_def)

lemma oversampleClass_label: "s \<in> set (oversampleClass rnd fs c m) \<Longrightarrow> label s = c"
  using set_limit_randomColumn[of _ rnd 0 "filter (\<lambda>s. label s = c) fs"]
  by (auto simp: oversampleClass_def Let_def Algorithms_If_def gt_def split: if_splits)

lemma filter_oversampleClass:
  "filter (\<lambda>s. label s = c) (oversampleClass rnd fs c m) = oversampleClass rnd fs c m"
  by (simp add: filter_id_conv oversampleClass_label)

lemma oversampleClass_keeps_class:
  "\<exists>dups. oversampleClass rnd fs c m = filter (\<lambda>s. label s = c) fs @ dups"
  by (simp add: oversampleClass_def Let_def)

lemma oversampleClass_no_duplication:
  assumes m: "m \<le> 1"
  shows "oversampleClass rnd fs c m = filter (\<lambda>s. label s = c) fs"
proof -
  let ?s = "length (filter (\<lambda>s. label s = c) fs)"
  have "m * real ?s \<le> 1 * real ?s" using m by (intro mult_right_mono) simp_all
  then have "max (m * real ?s) 0 \<le> real_of_int (int ?s)" by simp
  then have "round (max (m * real ?s) 0) \<le> round (real_of_int (int ?s))"
    by (rule round_mono)
  then have "round (max (m * real ?s) 0) \<le> int ?s" by simp
  then show ?thesis by (simp add: oversampleClass_def Let_def Algorithms_If_def gt_def)
qed

text \<open>
  Lines 280 to 284 on their own keep the stable class as it is, whenever the three
  collections merged onto it hold no sample of label 0.
\<close>

lemma balancedTrainingSet_stable:
  assumes "list_all (\<lambda>s. label s \<noteq> 0) (os1 @ os2 @ os3)"
  shows "filter (\<lambda>s. label s = 0) (balancedTrainingSet pool os1 os2 os3)
           = filter (\<lambda>s. label s = 0) pool"
proof -
  have "filter (\<lambda>s. label s = 0) (os1 @ os2 @ os3) = []"
    using assms by (simp add: filter_empty_conv list_all_iff)
  then show ?thesis by (simp add: balancedTrainingSet_def)
qed

subsection \<open>The claims on the training script\<close>

text \<open>
  C2. The claim: a class of observed size \<open>s\<close> and target \<open>t > s\<close> holds
  exactly \<open>t\<close> samples after balancing, the extra \<open>t - s\<close> drawn with replacement.
  \<open>oversampleClass\<close> draws its duplicates with \<open>limit\<close> from the class itself, so it
  adds at most \<open>s\<close> of them: a class of 150 samples with target 400 (multiplier
  400 / 150) ends with 300 samples, not 400.
\<close>

theorem oversampleClass_misses_target:
  "length (filter (\<lambda>s. label s = 1)
     (oversampleClass rnd (replicate 150 \<lparr>label = 1, feats = ()\<rparr>) 1 (400 / 150))) = 300"
  by (simp add: filter_oversampleClass length_oversampleClass)

text \<open>
  C5. The claim: when a class is absent from the held-out test split, its recall is
  reported as a missing metric in the Evaluation Record and the other metrics are still
  produced. Seven samples, iteration 0 (seed 100): the first four are given the random
  number 0 and form the training pool, the last three are given 9/10 and form the test
  split, whose labels are 0, 1 and 2, so class 3 is absent from it (first equation).
  The evaluation yields no Evaluation Record, with or without a missing metric: it ends
  in the ReferenceError of line 278 (second equation).
\<close>

theorem evaluation_without_class3_yields_no_record:
  "map label (map fst (filter (\<lambda>s. snd s \<ge> 3 / 4)
      (randomColumn (\<lambda>seed k. if k < 4 then 0 else 9 / 10) 100
        [\<lparr>label = 0, feats = ()\<rparr>, \<lparr>label = 1, feats = ()\<rparr>, \<lparr>label = 2, feats = ()\<rparr>,
         \<lparr>label = 3, feats = ()\<rparr>, \<lparr>label = 0, feats = ()\<rparr>, \<lparr>label = 1, feats = ()\<rparr>,
         \<lparr>label = 2, feats = ()\<rparr>]))) = [0, 1, 2]
   \<and> evaluateParams (\<lambda>seed k. if k < 4 then 0 else 9 / 10) smileRandomForest 1 3
        [\<lparr>label = 0, feats = ()\<rparr>, \<lparr>label = 1, feats = ()\<rparr>, \<lparr>label = 2, feats = ()\<rparr>,
         \<lparr>label = 3, feats = ()\<rparr>, \<lparr>label = 0, feats = ()\<rparr>, \<lparr>label = 1, feats = ()\<rparr>,
         \<lparr>label = 2, feats = ()\<rparr>]
        (allCombinations ! 0) 0
      = Inl (ReferenceError ''oversampledClass'')"
  by (simp add: evaluateParams_ReferenceError randomColumn_def upt_conv_Cons eval_nat_numeral)

text \<open>
  C6. The claim: the balanced training set holds as many samples of label 0 as the
  training pool. Lines 280 to 284, applied to the three classes oversampled by
  \<open>oversampleClass\<close>, would keep the samples of label 0 as they are (first equation).
  But for every pool, combination and iteration the evaluation stops at the call of the
  undeclared \<open>oversampledClass\<close> on line 278, so the balanced training set is never
  built (second equation).
\<close>

theorem balancing_never_completes:
  "filter (\<lambda>s. label s = 0)
     (balancedTrainingSet pool (oversampleClass rnd pool 1 m1) (oversampleClass rnd pool 2 m2)
        (oversampleClass rnd pool 3 m3))
     = filter (\<lambda>s. label s = 0) pool
   \<and> evaluateParams rnd smileRandomForest zone numFeatures completeSamples comb it
     = Inl (ReferenceError ''oversampledClass'')"
proof -
  have none: "filter (\<lambda>s. label s = 0) (oversampleClass rnd pool c m) = []" if "c \<noteq> 0" for c m
    using that oversampleClass_label [of _ rnd pool c m]
    by (fastforce simp: filter_empty_conv)
  show ?thesis
    by (simp add: balancedTrainingSet_def none evaluateParams_ReferenceError)
qed

text \<open>
  C7. The claim: the grid is the full product of 9 target triples and 9
  forest configurations, 81 combinations, and each yields one Evaluation Record. The
  grid has its 81 distinct combinations, but the collection of records is never
  produced: mapping \<open>evaluateParams\<close> over the grid raises the ReferenceError of
  line 278.
\<close>

theorem grid_search_yields_no_record:
  "length allCombinations = 81 \<and> distinct allCombinations \<and>
   results rnd smileRandomForest zone numFeatures completeSamples
     = Inl (ReferenceError ''oversampledClass'')"
  by (simp add: length_allCombinations distinct_allCombinations results_ReferenceError)

text \<open>
  C10. The claim: every sample of a class 1, 2 or 3 of the training pool is in the
  balanced training set. \<open>oversampleClass\<close> does return the samples of the class
  followed by its duplicates (first part). But the balanced training set is never
  built: with a pool that holds each of the four classes (every sample is given the
  random number 0, so all of them are in the training pool) the evaluation of the first
  combination ends in the ReferenceError of line 278 (second part).
\<close>

theorem class_samples_never_reach_training:
  "(\<exists>dups. oversampleClass rnd pool c m = filter (\<lambda>s. label s = c) pool @ dups)
   \<and> evaluateParams (\<lambda>seed k. 0) smileRandomForest 1 3
       [\<lparr>label = 0, feats = ()\<rparr>, \<lparr>label = 1, feats = ()\<rparr>,
        \<lparr>label = 2, feats = ()\<rparr>, \<lparr>label = 3, feats = ()\<rparr>]
       (allCombinations ! 0) 0
     = Inl (ReferenceError ''oversampledClass'')"
  using oversampleClass_keeps_class [of rnd pool c m]
  by (simp add: evaluateParams_ReferenceError)

section \<open>Properties of the mapping script\<close>


lemma length_Kernel_square_3: "length (Kernel_square 3) = 49"
  by (simp add: Kernel_square_def upto.simps)

lemma safeDivide_is_constant_0: "safeDivide num denom = Image_constant 0"
  by (simp add: safeDivide_def Algorithms_If_def)

lemma addFirstOrderTexture_bands:
  "map fst (addFirstOrderTexture img) =
     map fst img @ [''B1_mean'', ''B1_stdDev'', ''B2_mean'', ''B2_stdDev'', ''B3_mean'',
       ''B3_stdDev'', ''B4_mean'', ''B4_stdDev'', ''B5_mean'', ''B5_stdDev'', ''B7_mean'',
       ''B7_stdDev'']"
  by (simp add: addFirstOrderTexture_def Let_def addBands_def rename_def select_def
        reduceNeighborhood_def)

text \<open>
  C1. The claim: the relative change is (I_T - I_{T-1}) / max(|I_{T-1}|, 1e-5).
  \<open>safeDivide\<close> tests its denominator with \<open>ee.Algorithms.If\<close> on an image, which
  is always true, so it returns the constant image 0, and the difference is divided by
  0: with I_T = 3 and I_{T-1} = 2 in every index band the output is 0, not 1/2. The
  second equation is the quotient by the other branch of \<open>safeDivide\<close>, the one a test
  made pixel by pixel would take here: the divisor is |I_{T-1}| / (|I_{T-1}| + 1e-5),
  close to 1, and the quotient is 200001 / 200000, not 1/2 either.
\<close>

theorem chg_ra_is_not_the_relative_change:
  "sample_at
     (chg_ra_target (map (\<lambda>n. (n, \<lambda>p. Some 3)) INDEX_BANDS)
                    (map (\<lambda>n. (n, \<lambda>p. Some 2)) INDEX_BANDS))
     ''NBR_chg_ra'' p = Some 0
   \<and> sample_at
       (divide_img
          (subtract_img (map (\<lambda>n. (n, \<lambda>p. Some 3)) INDEX_BANDS)
                        (map (\<lambda>n. (n, \<lambda>p. Some 2)) INDEX_BANDS))
          (divide_img (abs_img (map (\<lambda>n. (n, \<lambda>p. Some 2)) INDEX_BANDS))
             (add_img (abs_img (map (\<lambda>n. (n, \<lambda>p. Some 2)) INDEX_BANDS))
                      (Image_constant (1 / 100000)))))
       ''NBR'' p = Some (200001 / 200000)"
  by (simp add: chg_ra_target_def safeDivide_is_constant_0 Image_constant_def divide_img_def
        subtract_img_def add_img_def abs_img_def image_op2_def band_op2_def INDEX_BANDS_def
        CHG_RA_NAMES_def rename_def select_def select_band_def sample_at_def)

text \<open>
  C3. The claim: on a series that grows by \<open>\<Delta>\<close> a year the trend and the
  recovery trend equal \<open>\<Delta>\<close>. Every index band is 0 in 2000 and 1 in 2001 (\<open>\<Delta> = 1\<close>)
  and the target year is 2002. The regression has the year as its only regressor and no
  constant term, so its coefficient is 2001 / 8004001; and \<open>arrayProject([0])\<close> drops
  the axis of the eight dependent variables, which fails, so neither trend is produced.
\<close>

theorem trend_of_unit_ramp:
  "linearRegression_numX1 (length INDEX_BANDS)
     (tuples_at (''year'' # INDEX_BANDS)
        (histCollection
           [(2000, map (\<lambda>n. (n, \<lambda>p. Some 0)) INDEX_BANDS),
            (2001, map (\<lambda>n. (n, \<lambda>p. Some 1)) INDEX_BANDS)] 2002) p)
     = Some [replicate 8 (2001 / 8004001)]
   \<and> fullTrend
       [(2000, map (\<lambda>n. (n, \<lambda>p. Some 0)) INDEX_BANDS),
        (2001, map (\<lambda>n. (n, \<lambda>p. Some 1)) INDEX_BANDS)] 2002 p
     = Inl (ArrayProjectDroppedAxisTooLong 1 8)
   \<and> recoveryTrend
       [(2000, map (\<lambda>n. (n, \<lambda>p. Some 0)) INDEX_BANDS),
        (2001, map (\<lambda>n. (n, \<lambda>p. Some 1)) INDEX_BANDS)] 2002 p
     = Inl (ArrayProjectDroppedAxisTooLong 1 8)"
proof -
  let ?ts = "[(2000, map (\<lambda>n. (n, \<lambda>p. Some 0)) INDEX_BANDS),
              (2001::int, map (\<lambda>n. (n, (\<lambda>p. Some 1)::band)) INDEX_BANDS)]"
  have hist: "histCollection_3y ?ts 2002 = histCollection ?ts 2002"
    by (simp add: histCollection_3y_def histCollection_def)
  have tuples: "tuples_at (''year'' # INDEX_BANDS) (histCollection ?ts 2002) p
      = [[2000, 0, 0, 0, 0, 0, 0, 0, 0], [2001, 1, 1, 1, 1, 1, 1, 1, 1]]"
    by (simp add: histCollection_def addYearBand_def Let_def addBands_def rename_def
          Image_constant_def tuples_at_def INDEX_BANDS_def select_band_def)
  have reg: "linearRegression_numX1 (length INDEX_BANDS)
      (tuples_at (''year'' # INDEX_BANDS) (histCollection ?ts 2002) p)
      = Some [replicate 8 (2001 / 8004001)]"
    unfolding tuples
    by (simp add: linearRegression_numX1_def INDEX_BANDS_def Let_def upt_conv_Cons
          eval_nat_numeral)
  have full: "calculateTrend (histCollection ?ts 2002) suffix p
      = Inl (ArrayProjectDroppedAxisTooLong 1 8)" for suffix
    unfolding calculateTrend_def reg by (simp add: arrayProject_axis0_def Let_def)
  show ?thesis
    using reg full by (simp add: fullTrend_def recoveryTrend_def hist)
qed

text \<open>
  C4. The claim: the texture mean and standard deviation are taken over
  the 3 by 3 window (radius 1). The kernel is \<open>ee.Kernel.square(3, 'pixels')\<close>, of
  radius 3, a 7 by 7 window. Band \<open>B1\<close> is 0 but for one pixel two columns away from
  the origin, of value 49: its mean over the 3 by 3 window of the origin is 0, and
  \<open>B1_mean\<close> is 1 there.
\<close>

theorem texture_window_is_7_by_7:
  "sample_at
     (addFirstOrderTexture
        [(''B1'', \<lambda>p. Some (if p = (2, 0) then 49 else 0)), (''B2'', \<lambda>p. Some 0),
         (''B3'', \<lambda>p. Some 0), (''B4'', \<lambda>p. Some 0), (''B5'', \<lambda>p. Some 0),
         (''B7'', \<lambda>p. Some 0)])
     ''B1_mean'' (0, 0) = Some 1
   \<and> Reducer_mean (neighbourhood (Kernel_square 1)
        (\<lambda>p. Some (if p = (2, 0) then 49 else 0)) (0, 0)) = Some 0"
  by (simp add: addFirstOrderTexture_def Let_def addBands_def rename_def select_def
        select_band_def sample_at_def reduceNeighborhood_def neighbourhood_def
        Kernel_square_def upto.simps Reducer_mean_def)

text \<open>
  C8, counterexample. The claim: NDVI is 0 wherever NIR and RED are equal with a nonzero
  sum. \<open>normalizedDifference\<close> masks a pixel with a negative input: where both bands
  are -1 the sum is not 0 and NDVI has no value.
\<close>

theorem ndvi_of_equal_negative_bands_counterexample:
  "sample_at
     (addIndices
        [(''B1'', \<lambda>p. Some (- 1)), (''B2'', \<lambda>p. Some (- 1)), (''B3'', \<lambda>p. Some (- 1)),
         (''B4'', \<lambda>p. Some (- 1)), (''B5'', \<lambda>p. Some (- 1)), (''B7'', \<lambda>p. Some (- 1))])
     ''NDVI'' (0, 0) = None"
  by (simp add: addIndices_def Let_def addBands_def rename_def multiply_img_def image_op2_def
        band_op2_def normalizedDifference_def Image_constant_def select_band_def sample_at_def)

text \<open>
  C8, the statement that holds: for a composite of the six reflectance bands, NDVI is 0 at every pixel
  where NIR (\<open>B4\<close>) and RED (\<open>B3\<close>) hold the same positive value.
\<close>

theorem ndvi_of_equal_positive_bands:
  assumes "b4 p = Some a" and "b3 p = Some a" and "0 < a"
  shows "sample_at
           (addIndices [(''B1'', b1), (''B2'', b2), (''B3'', b3), (''B4'', b4),
                        (''B5'', b5), (''B7'', b7)])
           ''NDVI'' p = Some 0"
  using assms
  by (simp add: addIndices_def Let_def addBands_def rename_def multiply_img_def image_op2_def
        band_op2_def normalizedDifference_def Image_constant_def select_band_def sample_at_def)

theorem ndvi_of_equal_positive_bands_witness:
  "sample_at
     (addIndices [(''B1'', \<lambda>p. Some 300), (''B2'', \<lambda>p. Some 500), (''B3'', \<lambda>p. Some 2500),
                  (''B4'', \<lambda>p. Some 2500), (''B5'', \<lambda>p. Some 1800), (''B7'', \<lambda>p. Some 900)])
     ''NDVI'' (0, 0) = Some 0"
  using ndvi_of_equal_positive_bands
          [of "\<lambda>p. Some 2500" "(0, 0)" 2500 "\<lambda>p. Some 2500"
              "\<lambda>p. Some 300" "\<lambda>p. Some 500" "\<lambda>p. Some 1800" "\<lambda>p. Some 900"]
  by simp







end
